theory Spec2Isabelle
  imports Main "HOL-Library.Word"
begin

unbundle bit_operations_syntax

section \<open>Data model of \<^verbatim>\<open>internal/pcap/layer.go\<close>\<close>

text \<open>
  The Go file builds and inspects packet layers of the \<^verbatim>\<open>gopacket\<close> library. The
  record types below carry the fields of the library structs that the file names; the
  fields the file never touches are left out.
\<close>

type_synonym byte = "8 word"
type_synonym uint16 = "16 word"
type_synonym uint32 = "32 word"

text \<open>\<^verbatim>\<open>net.IP\<close> is a byte slice; the nil slice is the empty list.\<close>

type_synonym net_IP = "byte list"

text \<open>
  \<^verbatim>\<open>gopacket.LayerType\<close>: the layer types the file dispatches on, the zero value of
  the type (what an unset \<^verbatim>\<open>embTransportLayerType\<close> holds), and every other
  registered layer type under its number.
\<close>

datatype LayerType =
    LayerTypeZero
  | LayerTypeIPv4
  | LayerTypeIPv6
  | LayerTypeTCP
  | LayerTypeUDP
  | LayerTypeICMPv4
  | LayerTypeOther nat

record IPv4 =
  IPv4_Version :: byte
  IPv4_IHL :: byte
  IPv4_Length :: uint16
  IPv4_Id :: uint16
  IPv4_Flags :: byte
  IPv4_TTL :: byte
  IPv4_Protocol :: byte
  IPv4_Checksum :: uint16
  IPv4_SrcIP :: net_IP
  IPv4_DstIP :: net_IP

record IPv6 =
  IPv6_SrcIP :: net_IP
  IPv6_DstIP :: net_IP

text \<open>
  \<^verbatim>\<open>pseudoheader\<close> is the network layer that \<^verbatim>\<open>SetNetworkLayerForChecksum\<close>
  binds to a TCP or UDP layer.
\<close>

record TCP =
  TCP_SrcPort :: uint16
  TCP_DstPort :: uint16
  TCP_Seq :: uint32
  TCP_Ack :: uint32
  TCP_DataOffset :: byte
  TCP_SYN :: bool
  TCP_ACK :: bool
  TCP_PSH :: bool
  TCP_Window :: uint16
  TCP_Checksum :: uint16
  TCP_pseudoheader :: "IPv4 option"

record UDP =
  UDP_SrcPort :: uint16
  UDP_DstPort :: uint16
  UDP_Length :: uint16
  UDP_Checksum :: uint16
  UDP_pseudoheader :: "IPv4 option"

record ICMPv4 =
  ICMPv4_TypeCode :: uint16
  ICMPv4_Id :: uint16
  ICMPv4_Seq :: uint16
  ICMPv4_Payload :: "byte list"

text \<open>
  A value of the interface \<^verbatim>\<open>gopacket.Layer\<close>: a pointer to one of the layer
  structs. \<open>LayerOther n\<close> is a layer of any other kind (a decode failure, a raw
  payload, SCTP, ...), whose layer type is \<open>LayerTypeOther n\<close>.
\<close>

datatype Layer =
    LayerIPv4 IPv4
  | LayerIPv6 IPv6
  | LayerTCP TCP
  | LayerUDP UDP
  | LayerICMPv4 ICMPv4
  | LayerOther nat

text \<open>The method \<^verbatim>\<open>LayerType()\<close> of a layer.\<close>

fun layerTypeOf :: "Layer \<Rightarrow> LayerType" where
  "layerTypeOf (LayerIPv4 _) = LayerTypeIPv4"
| "layerTypeOf (LayerIPv6 _) = LayerTypeIPv6"
| "layerTypeOf (LayerTCP _) = LayerTypeTCP"
| "layerTypeOf (LayerUDP _) = LayerTypeUDP"
| "layerTypeOf (LayerICMPv4 _) = LayerTypeICMPv4"
| "layerTypeOf (LayerOther n) = LayerTypeOther n"

subsection \<open>Errors, panics and outcomes\<close>

text \<open>
  One constructor for each error message the file builds; \<open>Wrap c e\<close> is
  \<^verbatim>\<open>fmt.Errorf("c: %w", e)\<close>.
\<close>

datatype error =
    ErrInvalidIPv4Address net_IP
  | ErrInvalidIPv6Address net_IP
  | ErrIPv6NotSupport
  | ErrTransportLayerTypeNotSupport LayerType
  | ErrMissingNetworkLayer
  | ErrMissingTransportLayer
  | ErrNetworkLayerTypeNotSupport
  | ErrIPVersionNotSupport byte
  | ErrICMPTypeNotSupport byte
  | ErrLayerTypeNotSupport LayerType
  | ErrICMPv4QueryNotSupport
  | Wrap string error

text \<open>
  What a Go \<^verbatim>\<open>panic\<close> carries: the error value handed to \<^verbatim>\<open>panic(...)\<close>, or one
  of the run-time panics (a nil pointer dereference, a failed type assertion).
\<close>

datatype panic =
    PanicError error
  | NilPointerDereference
  | InterfaceConversion

text \<open>
  A call returns a value, returns a non-nil \<^verbatim>\<open>error\<close> to its caller
  (\<open>Failed\<close>), or panics (\<open>Panicked\<close>).
\<close>

datatype 'a outcome =
    is_Returned: Returned 'a
  | is_Failed: Failed error
  | is_Panicked: Panicked panic

fun andThen :: "'a outcome \<Rightarrow> ('a \<Rightarrow> 'b outcome) \<Rightarrow> 'b outcome" where
  "andThen (Returned x) f = f x"
| "andThen (Failed e) f = Failed e"
| "andThen (Panicked p) f = Panicked p"

subsection \<open>Library constants and functions\<close>

text \<open>
  \<^verbatim>\<open>net.IP.To4\<close> of the Go standard library: a 4-byte slice is returned as it is,
  a 16-byte slice with the IPv4-mapped prefix gives its last four bytes, anything else
  gives nil.
\<close>

definition isZeros :: "byte list \<Rightarrow> bool" where
  "isZeros p = list_all (\<lambda>b. b = 0) p"

definition To4 :: "net_IP \<Rightarrow> net_IP option" where
  "To4 ip =
     (if length ip = 4 then Some ip
      else if length ip = 16 \<and> isZeros (take 10 ip) \<and> ip ! 10 = 0xff \<and> ip ! 11 = 0xff
        then Some (take 4 (drop 12 ip))
      else None)"

text \<open>Constants of \<^verbatim>\<open>gopacket/layers\<close>, with the numbers of the protocol registries.\<close>

definition IPv4DontFragment :: byte where "IPv4DontFragment = 2"
definition IPProtocolTCP :: byte where "IPProtocolTCP = 6"
definition IPProtocolUDP :: byte where "IPProtocolUDP = 17"

definition ICMPv4TypeEchoReply :: byte where "ICMPv4TypeEchoReply = 0"
definition ICMPv4TypeDestinationUnreachable :: byte where "ICMPv4TypeDestinationUnreachable = 3"
definition ICMPv4TypeSourceQuench :: byte where "ICMPv4TypeSourceQuench = 4"
definition ICMPv4TypeRedirect :: byte where "ICMPv4TypeRedirect = 5"
definition ICMPv4TypeEchoRequest :: byte where "ICMPv4TypeEchoRequest = 8"
definition ICMPv4TypeRouterAdvertisement :: byte where "ICMPv4TypeRouterAdvertisement = 9"
definition ICMPv4TypeRouterSolicitation :: byte where "ICMPv4TypeRouterSolicitation = 10"
definition ICMPv4TypeTimeExceeded :: byte where "ICMPv4TypeTimeExceeded = 11"
definition ICMPv4TypeParameterProblem :: byte where "ICMPv4TypeParameterProblem = 12"
definition ICMPv4TypeTimestampRequest :: byte where "ICMPv4TypeTimestampRequest = 13"
definition ICMPv4TypeTimestampReply :: byte where "ICMPv4TypeTimestampReply = 14"
definition ICMPv4TypeInfoRequest :: byte where "ICMPv4TypeInfoRequest = 15"
definition ICMPv4TypeInfoReply :: byte where "ICMPv4TypeInfoReply = 16"
definition ICMPv4TypeAddressMaskRequest :: byte where "ICMPv4TypeAddressMaskRequest = 17"
definition ICMPv4TypeAddressMaskReply :: byte where "ICMPv4TypeAddressMaskReply = 18"

text \<open>
  \<^verbatim>\<open>ICMPv4TypeCode.Type()\<close>: the type is the high byte of the 16-bit type+code
  value, \<^verbatim>\<open>uint8(a >> 8)\<close>.
\<close>

definition ICMPv4TypeCode_Type :: "uint16 \<Rightarrow> byte" where
  "ICMPv4TypeCode_Type a = ucast (drop_bit 8 a)"

text \<open>
  The two case lists of the type switch, which the file writes out three times (in
  \<^verbatim>\<open>parseICMPv4Layer\<close>, \<^verbatim>\<open>isQuery\<close> and \<^verbatim>\<open>isEmbQuery\<close>), in the order of
  the source.
\<close>

definition queryTypes :: "byte list" where
  "queryTypes =
     [ICMPv4TypeEchoReply, ICMPv4TypeEchoRequest, ICMPv4TypeRouterAdvertisement,
      ICMPv4TypeRouterSolicitation, ICMPv4TypeTimestampRequest, ICMPv4TypeTimestampReply,
      ICMPv4TypeInfoRequest, ICMPv4TypeInfoReply, ICMPv4TypeAddressMaskRequest,
      ICMPv4TypeAddressMaskReply]"

definition errorTypes :: "byte list" where
  "errorTypes =
     [ICMPv4TypeDestinationUnreachable, ICMPv4TypeSourceQuench, ICMPv4TypeRedirect,
      ICMPv4TypeTimeExceeded, ICMPv4TypeParameterProblem]"

section \<open>Layer factory\<close>

text \<open>
  \<^verbatim>\<open>createNetworkLayerIPv4\<close>. The Go function returns the new IPv4 layer and, as a
  side effect, binds it to the transport layer for the checksum; the model returns
  both. \<^verbatim>\<open>SetNetworkLayerForChecksum\<close> fails only for a network layer that is
  neither IPv4 nor IPv6, so it succeeds here. The transport layer argument is a layer
  value: a nil interface, on which \<^verbatim>\<open>LayerType()\<close> panics after the address
  check, is not among them.
\<close>

definition createNetworkLayerIPv4 ::
  "net_IP \<Rightarrow> net_IP \<Rightarrow> uint16 \<Rightarrow> byte \<Rightarrow> Layer \<Rightarrow> (IPv4 \<times> Layer) outcome" where
  "createNetworkLayerIPv4 srcIP dstIP ident ttl transportLayer =
     (if To4 srcIP = None \<or> To4 dstIP = None
      then Failed (Wrap ''create network layer'' (ErrInvalidIPv4Address srcIP))
      else
        let ipv4Layer = \<lparr>IPv4_Version = 4, IPv4_IHL = 5, IPv4_Length = 0, IPv4_Id = ident,
                          IPv4_Flags = IPv4DontFragment, IPv4_TTL = ttl, IPv4_Protocol = 0,
                          IPv4_Checksum = 0, IPv4_SrcIP = srcIP, IPv4_DstIP = dstIP\<rparr>;
            transportLayerType = layerTypeOf transportLayer
        in
          if transportLayerType = LayerTypeTCP then
            (let ipv4Layer = ipv4Layer\<lparr>IPv4_Protocol := IPProtocolTCP\<rparr> in
             case transportLayer of
               LayerTCP tcpLayer \<Rightarrow>
                 Returned (ipv4Layer, LayerTCP (tcpLayer\<lparr>TCP_pseudoheader := Some ipv4Layer\<rparr>))
             | _ \<Rightarrow> Panicked InterfaceConversion)
          else if transportLayerType = LayerTypeUDP then
            (let ipv4Layer = ipv4Layer\<lparr>IPv4_Protocol := IPProtocolUDP\<rparr> in
             case transportLayer of
               LayerUDP udpLayer \<Rightarrow>
                 Returned (ipv4Layer, LayerUDP (udpLayer\<lparr>UDP_pseudoheader := Some ipv4Layer\<rparr>))
             | _ \<Rightarrow> Panicked InterfaceConversion)
          else Failed (Wrap ''create network layer''
                 (ErrTransportLayerTypeNotSupport transportLayerType)))"

definition createNetworkLayerIPv6 :: "net_IP \<Rightarrow> net_IP \<Rightarrow> Layer \<Rightarrow> IPv6 outcome" where
  "createNetworkLayerIPv6 srcIP dstIP transportLayer =
     (if To4 srcIP \<noteq> None \<or> To4 dstIP \<noteq> None
      then Failed (Wrap ''create network layer'' (ErrInvalidIPv6Address srcIP))
      else Failed (Wrap ''create network layer'' ErrIPv6NotSupport))"

section \<open>ICMPv4 indicator\<close>

text \<open>
  The struct \<^verbatim>\<open>icmpv4Indicator\<close>. A nil \<^verbatim>\<open>embIPv4Layer\<close> pointer and a nil
  \<^verbatim>\<open>embTransportLayer\<close> interface are \<open>None\<close>.
\<close>

record icmpv4Indicator =
  layer :: ICMPv4
  embIPv4Layer :: "IPv4 option"
  embTransportLayer :: "Layer option"
  embTransportLayerType :: LayerType

text \<open>
  \<^verbatim>\<open>parseICMPv4Layer\<close>. The first argument stands for the library's decoder: it
  maps the payload to the list \<^verbatim>\<open>packet.Layers()\<close> of
  \<^verbatim>\<open>gopacket.NewPacket(layer.Payload, layers.LayerTypeIPv4, gopacket.Default)\<close>.
\<close>

definition parseICMPv4Layer ::
  "(byte list \<Rightarrow> Layer list) \<Rightarrow> ICMPv4 \<Rightarrow> icmpv4Indicator outcome" where
  "parseICMPv4Layer NewPacket l =
     (let t = ICMPv4TypeCode_Type (ICMPv4_TypeCode l) in
      if t \<in> set queryTypes then
        Returned \<lparr>layer = l, embIPv4Layer = None, embTransportLayer = None,
                  embTransportLayerType = LayerTypeZero\<rparr>
      else if t \<in> set errorTypes then
        (let packet_Layers = NewPacket (ICMPv4_Payload l) in
         if length packet_Layers \<le> 0 then
           Failed (Wrap ''parse icmp v4 layer'' ErrMissingNetworkLayer)
         else if length packet_Layers \<le> 1 then
           Failed (Wrap ''parse icmp v4 layer'' ErrMissingTransportLayer)
         else
           let networkLayer = packet_Layers ! 0 in
           if layerTypeOf networkLayer \<noteq> LayerTypeIPv4 then
             Failed (Wrap ''parse icmp v4 layer'' ErrNetworkLayerTypeNotSupport)
           else
             (case networkLayer of
                LayerIPv4 embIPv4 \<Rightarrow>
                  if IPv4_Version embIPv4 \<noteq> 4 then
                    Failed (Wrap ''parse icmp v4 layer''
                      (ErrIPVersionNotSupport (IPv4_Version embIPv4)))
                  else
                    let embTransport = packet_Layers ! 1 in
                    Returned \<lparr>layer = l, embIPv4Layer = Some embIPv4,
                              embTransportLayer = Some embTransport,
                              embTransportLayerType = layerTypeOf embTransport\<rparr>
              | _ \<Rightarrow> Panicked InterfaceConversion))
      else Failed (Wrap ''parse icmp v4 layer'' (ErrICMPTypeNotSupport t)))"

definition isQuery :: "icmpv4Indicator \<Rightarrow> bool outcome" where
  "isQuery indicator =
     (let t = ICMPv4TypeCode_Type (ICMPv4_TypeCode (layer indicator)) in
      if t \<in> set queryTypes then Returned True
      else if t \<in> set errorTypes then Returned False
      else Panicked (PanicError (Wrap ''is query'' (ErrICMPTypeNotSupport t))))"

definition embSrcIP :: "icmpv4Indicator \<Rightarrow> net_IP outcome" where
  "embSrcIP indicator =
     (case embIPv4Layer indicator of
        None \<Rightarrow> Panicked NilPointerDereference
      | Some ip \<Rightarrow> Returned (IPv4_SrcIP ip))"

definition embDstIP :: "icmpv4Indicator \<Rightarrow> net_IP outcome" where
  "embDstIP indicator =
     (case embIPv4Layer indicator of
        None \<Rightarrow> Panicked NilPointerDereference
      | Some ip \<Rightarrow> Returned (IPv4_DstIP ip))"

text \<open>
  The three layer getters return a nil pointer (\<open>None\<close>) when the discriminant is
  another one; the type assertion inside panics when the stored layer is not of the
  asserted type.
\<close>

definition embTCPLayer :: "icmpv4Indicator \<Rightarrow> TCP option outcome" where
  "embTCPLayer indicator =
     (if embTransportLayerType indicator = LayerTypeTCP then
        (case embTransportLayer indicator of
           Some (LayerTCP tcp) \<Rightarrow> Returned (Some tcp)
         | _ \<Rightarrow> Panicked InterfaceConversion)
      else Returned None)"

definition embUDPLayer :: "icmpv4Indicator \<Rightarrow> UDP option outcome" where
  "embUDPLayer indicator =
     (if embTransportLayerType indicator = LayerTypeUDP then
        (case embTransportLayer indicator of
           Some (LayerUDP udp) \<Rightarrow> Returned (Some udp)
         | _ \<Rightarrow> Panicked InterfaceConversion)
      else Returned None)"

definition embICMPv4Layer :: "icmpv4Indicator \<Rightarrow> ICMPv4 option outcome" where
  "embICMPv4Layer indicator =
     (if embTransportLayerType indicator = LayerTypeICMPv4 then
        (case embTransportLayer indicator of
           Some (LayerICMPv4 icmp) \<Rightarrow> Returned (Some icmp)
         | _ \<Rightarrow> Panicked InterfaceConversion)
      else Returned None)"

text \<open>Reading a field through a pointer: a nil pointer panics.\<close>

definition deref :: "'a option \<Rightarrow> ('a \<Rightarrow> 'b) \<Rightarrow> 'b outcome" where
  "deref p field = (case p of None \<Rightarrow> Panicked NilPointerDereference | Some x \<Rightarrow> Returned (field x))"

definition embId :: "icmpv4Indicator \<Rightarrow> uint16 outcome" where
  "embId indicator =
     (if embTransportLayerType indicator = LayerTypeICMPv4 then
        andThen (embICMPv4Layer indicator) (\<lambda>p. deref p ICMPv4_Id)
      else Panicked (PanicError (Wrap ''emb id''
             (ErrLayerTypeNotSupport (embTransportLayerType indicator)))))"

definition embSrcPort :: "icmpv4Indicator \<Rightarrow> uint16 outcome" where
  "embSrcPort indicator =
     (if embTransportLayerType indicator = LayerTypeTCP then
        andThen (embTCPLayer indicator) (\<lambda>p. deref p TCP_SrcPort)
      else if embTransportLayerType indicator = LayerTypeUDP then
        andThen (embUDPLayer indicator) (\<lambda>p. deref p UDP_SrcPort)
      else Panicked (PanicError (Wrap ''emb src port''
             (ErrLayerTypeNotSupport (embTransportLayerType indicator)))))"

definition embDstPort :: "icmpv4Indicator \<Rightarrow> uint16 outcome" where
  "embDstPort indicator =
     (if embTransportLayerType indicator = LayerTypeTCP then
        andThen (embTCPLayer indicator) (\<lambda>p. deref p TCP_DstPort)
      else if embTransportLayerType indicator = LayerTypeUDP then
        andThen (embUDPLayer indicator) (\<lambda>p. deref p UDP_DstPort)
      else Panicked (PanicError (Wrap ''emb dst port''
             (ErrLayerTypeNotSupport (embTransportLayerType indicator)))))"

definition isEmbQuery :: "icmpv4Indicator \<Rightarrow> bool outcome" where
  "isEmbQuery indicator =
     andThen (embICMPv4Layer indicator) (\<lambda>p.
     andThen (deref p ICMPv4_TypeCode) (\<lambda>tc.
       let t = ICMPv4TypeCode_Type tc in
       if t \<in> set queryTypes then Returned True
       else if t \<in> set errorTypes then Returned False
       else Panicked (PanicError (Wrap ''is emb query'' (ErrICMPTypeNotSupport t)))))"

section \<open>NAT endpoints\<close>

text \<open>
  Modelled from the spec: the interface \<^verbatim>\<open>IPEndpoint\<close> and its three
  implementations \<^verbatim>\<open>IPPort\<close>, \<^verbatim>\<open>IPId\<close> and \<^verbatim>\<open>IP\<close> are declared in another
  file of package \<^verbatim>\<open>pcap\<close>. The spec describes them as a closed variant over three
  shapes: address and port, address and identifier, address only. The fields are those
  the struct literals of \<^verbatim>\<open>natSrc\<close> and \<^verbatim>\<open>natDst\<close> set.
\<close>

datatype IPEndpoint =
    IPPort net_IP uint16
  | IPId net_IP uint16
  | IP net_IP

definition natSrc :: "icmpv4Indicator \<Rightarrow> IPEndpoint outcome" where
  "natSrc indicator =
     andThen (isQuery indicator) (\<lambda>q.
       if q then Panicked (PanicError (Wrap ''src'' ErrICMPv4QueryNotSupport))
       else if embTransportLayerType indicator = LayerTypeTCP
             \<or> embTransportLayerType indicator = LayerTypeUDP then
         andThen (embDstIP indicator) (\<lambda>ip.
         andThen (embDstPort indicator) (\<lambda>port.
           Returned (IPPort ip port)))
       else if embTransportLayerType indicator = LayerTypeICMPv4 then
         andThen (isEmbQuery indicator) (\<lambda>eq.
           if eq then
             andThen (embDstIP indicator) (\<lambda>ip.
             andThen (embId indicator) (\<lambda>i.
               Returned (IPId ip i)))
           else
             andThen (embDstIP indicator) (\<lambda>ip. Returned (IP ip)))
       else Panicked (PanicError (Wrap ''src''
              (ErrLayerTypeNotSupport (embTransportLayerType indicator)))))"

definition natDst :: "icmpv4Indicator \<Rightarrow> IPEndpoint outcome" where
  "natDst indicator =
     andThen (isQuery indicator) (\<lambda>q.
       if q then Panicked (PanicError (Wrap ''dst'' ErrICMPv4QueryNotSupport))
       else if embTransportLayerType indicator = LayerTypeTCP
             \<or> embTransportLayerType indicator = LayerTypeUDP then
         andThen (embSrcIP indicator) (\<lambda>ip.
         andThen (embSrcPort indicator) (\<lambda>port.
           Returned (IPPort ip port)))
       else if embTransportLayerType indicator = LayerTypeICMPv4 then
         andThen (isEmbQuery indicator) (\<lambda>eq.
           if eq then
             andThen (embSrcIP indicator) (\<lambda>ip.
             andThen (embId indicator) (\<lambda>i.
               Returned (IPId ip i)))
           else
             andThen (embSrcIP indicator) (\<lambda>ip. Returned (IP ip)))
       else Panicked (PanicError (Wrap ''dst''
              (ErrLayerTypeNotSupport (embTransportLayerType indicator)))))"

section \<open>The decoder of the library\<close>

text \<open>
  \<^verbatim>\<open>gopacket.NewPacket(data, layers.LayerTypeIPv4, gopacket.Default)\<close> decodes
  eagerly; \<^verbatim>\<open>packet.Layers()\<close> is the list of layers it added. The library is not
  part of the repository. The model below follows it on the payloads that the examples
  and the theorems about truncated payloads need, and hands every other payload to the
  argument \<open>elsewhere\<close>, about which it says nothing.

  \<^item> \<^verbatim>\<open>decodeIPv4\<close> adds the IPv4 layer before it looks at the error of
    \<^verbatim>\<open>IPv4.DecodeFromBytes\<close>, and a decode error adds a final
    \<^verbatim>\<open>DecodeFailure\<close> layer. \<^verbatim>\<open>DecodeFromBytes\<close> returns an error, with no
    field set, when fewer than 20 bytes are there.
  \<^item> \<^verbatim>\<open>decodeUDP\<close> and \<^verbatim>\<open>decodeTCP\<close> do the same with their layer; their
    \<^verbatim>\<open>DecodeFromBytes\<close> returns an error, with no field set, below 8 and below 20
    bytes.
  \<^item> \<^verbatim>\<open>NextDecoder\<close> adds nothing when the payload of the last layer is empty.
\<close>

definition LayerDecodeFailure :: Layer where
  "LayerDecodeFailure = LayerOther 1"

definition IPv4MoreFragments :: byte where "IPv4MoreFragments = 1"
definition IPProtocolICMPv4 :: byte where "IPProtocolICMPv4 = 1"

text \<open>\<^verbatim>\<open>binary.BigEndian.Uint16\<close> of two bytes.\<close>

definition be16 :: "byte \<Rightarrow> byte \<Rightarrow> uint16" where
  "be16 hi lo = push_bit 8 (ucast hi) OR ucast lo"

text \<open>The zero values of the layer structs.\<close>

definition IPv4_zero :: IPv4 where
  "IPv4_zero =
     \<lparr>IPv4_Version = 0, IPv4_IHL = 0, IPv4_Length = 0, IPv4_Id = 0, IPv4_Flags = 0,
      IPv4_TTL = 0, IPv4_Protocol = 0, IPv4_Checksum = 0, IPv4_SrcIP = [], IPv4_DstIP = []\<rparr>"

definition UDP_zero :: UDP where
  "UDP_zero =
     \<lparr>UDP_SrcPort = 0, UDP_DstPort = 0, UDP_Length = 0, UDP_Checksum = 0,
      UDP_pseudoheader = None\<rparr>"

definition TCP_zero :: TCP where
  "TCP_zero =
     \<lparr>TCP_SrcPort = 0, TCP_DstPort = 0, TCP_Seq = 0, TCP_Ack = 0, TCP_DataOffset = 0,
      TCP_SYN = False, TCP_ACK = False, TCP_PSH = False, TCP_Window = 0, TCP_Checksum = 0,
      TCP_pseudoheader = None\<rparr>"

text \<open>
  The fields that \<^verbatim>\<open>IPv4.DecodeFromBytes\<close>, \<^verbatim>\<open>UDP.DecodeFromBytes\<close> and
  \<^verbatim>\<open>ICMPv4.DecodeFromBytes\<close> read from a header that is there in full (20, 8
  and 8 bytes).
\<close>

definition decodeIPv4Header :: "byte list \<Rightarrow> IPv4" where
  "decodeIPv4Header data =
     \<lparr>IPv4_Version = drop_bit 4 (data ! 0),
      IPv4_IHL = data ! 0 AND 0x0F,
      IPv4_Length = be16 (data ! 2) (data ! 3),
      IPv4_Id = be16 (data ! 4) (data ! 5),
      IPv4_Flags = ucast (drop_bit 13 (be16 (data ! 6) (data ! 7))),
      IPv4_TTL = data ! 8,
      IPv4_Protocol = data ! 9,
      IPv4_Checksum = be16 (data ! 10) (data ! 11),
      IPv4_SrcIP = take 4 (drop 12 data),
      IPv4_DstIP = take 4 (drop 16 data)\<rparr>"

definition decodeUDPHeader :: "byte list \<Rightarrow> UDP" where
  "decodeUDPHeader data =
     \<lparr>UDP_SrcPort = be16 (data ! 0) (data ! 1),
      UDP_DstPort = be16 (data ! 2) (data ! 3),
      UDP_Length = be16 (data ! 4) (data ! 5),
      UDP_Checksum = be16 (data ! 6) (data ! 7),
      UDP_pseudoheader = None\<rparr>"

definition decodeICMPv4Header :: "byte list \<Rightarrow> ICMPv4" where
  "decodeICMPv4Header data =
     \<lparr>ICMPv4_TypeCode = be16 (data ! 0) (data ! 1),
      ICMPv4_Id = be16 (data ! 4) (data ! 5),
      ICMPv4_Seq = be16 (data ! 6) (data ! 7),
      ICMPv4_Payload = drop 8 data\<rparr>"

text \<open>
  The layers of a payload. A header is plain when it has no options (IHL 5), a total
  length of at least 20 and no fragmentation; the bytes after the header, up to the
  total length, are then the payload of the IPv4 layer.
\<close>

definition NewPacket_Layers :: "(byte list \<Rightarrow> Layer list) \<Rightarrow> byte list \<Rightarrow> Layer list" where
  "NewPacket_Layers elsewhere data =
     (if length data < 20 then [LayerIPv4 IPv4_zero, LayerDecodeFailure]
      else
        let ip = decodeIPv4Header data;
            body = drop 20 (take (unat (IPv4_Length ip)) data)
        in
        if IPv4_IHL ip = 5 \<and> 20 \<le> unat (IPv4_Length ip)
           \<and> IPv4_Flags ip AND IPv4MoreFragments = 0
           \<and> be16 (data ! 6) (data ! 7) AND 0x1FFF = 0
        then
          if body = [] then [LayerIPv4 ip]
          else if IPv4_Protocol ip = IPProtocolUDP then
            (if length body < 8 then [LayerIPv4 ip, LayerUDP UDP_zero, LayerDecodeFailure]
             else if length body = 8 \<and> 8 \<le> unat (be16 (body ! 4) (body ! 5))
               then [LayerIPv4 ip, LayerUDP (decodeUDPHeader body)]
             else elsewhere data)
          else if IPv4_Protocol ip = IPProtocolTCP then
            (if length body < 20 then [LayerIPv4 ip, LayerTCP TCP_zero, LayerDecodeFailure]
             else elsewhere data)
          else if IPv4_Protocol ip = IPProtocolICMPv4 then
            (if length body = 8 then [LayerIPv4 ip, LayerICMPv4 (decodeICMPv4Header body)]
             else elsewhere data)
          else elsewhere data
        else elsewhere data)"

section \<open>Example packets\<close>

text \<open>
  An original UDP datagram from 10.0.0.5:5000 to 8.8.8.8:53 (an IPv4 header and the
  8-byte UDP header), and the ICMPv4 time-exceeded message that embeds it.
\<close>

definition exampleUDPBytes :: "byte list" where
  "exampleUDPBytes =
     [0x45, 0x00, 0x00, 0x1c, 0x00, 0x01, 0x00, 0x00, 0x40, 0x11, 0x60, 0xbc,
      0x0a, 0x00, 0x00, 0x05, 0x08, 0x08, 0x08, 0x08,
      0x13, 0x88, 0x00, 0x35, 0x00, 0x08, 0x00, 0x00]"

definition exampleUDPHeader :: IPv4 where
  "exampleUDPHeader =
     \<lparr>IPv4_Version = 4, IPv4_IHL = 5, IPv4_Length = 28, IPv4_Id = 1, IPv4_Flags = 0,
      IPv4_TTL = 64, IPv4_Protocol = IPProtocolUDP, IPv4_Checksum = 0x60bc,
      IPv4_SrcIP = [10, 0, 0, 5], IPv4_DstIP = [8, 8, 8, 8]\<rparr>"

definition exampleUDP :: UDP where
  "exampleUDP =
     \<lparr>UDP_SrcPort = 5000, UDP_DstPort = 53, UDP_Length = 8, UDP_Checksum = 0,
      UDP_pseudoheader = None\<rparr>"

definition exampleTimeExceeded :: ICMPv4 where
  "exampleTimeExceeded =
     \<lparr>ICMPv4_TypeCode = 0x0B00, ICMPv4_Id = 0, ICMPv4_Seq = 0,
      ICMPv4_Payload = exampleUDPBytes\<rparr>"

text \<open>
  An original echo request (identifier 0x1234) from 10.0.0.5 to 8.8.8.8, and the
  destination-unreachable message that embeds it.
\<close>

definition exampleEchoBytes :: "byte list" where
  "exampleEchoBytes =
     [0x45, 0x00, 0x00, 0x1c, 0x00, 0x01, 0x00, 0x00, 0x40, 0x01, 0x60, 0xcc,
      0x0a, 0x00, 0x00, 0x05, 0x08, 0x08, 0x08, 0x08,
      0x08, 0x00, 0xe5, 0xca, 0x12, 0x34, 0x00, 0x01]"

definition exampleEchoHeader :: IPv4 where
  "exampleEchoHeader =
     \<lparr>IPv4_Version = 4, IPv4_IHL = 5, IPv4_Length = 28, IPv4_Id = 1, IPv4_Flags = 0,
      IPv4_TTL = 64, IPv4_Protocol = 1, IPv4_Checksum = 0x60cc,
      IPv4_SrcIP = [10, 0, 0, 5], IPv4_DstIP = [8, 8, 8, 8]\<rparr>"

definition exampleEcho :: ICMPv4 where
  "exampleEcho =
     \<lparr>ICMPv4_TypeCode = 0x0800, ICMPv4_Id = 0x1234, ICMPv4_Seq = 1, ICMPv4_Payload = []\<rparr>"

definition exampleUnreachable :: ICMPv4 where
  "exampleUnreachable =
     \<lparr>ICMPv4_TypeCode = 0x0301, ICMPv4_Id = 0, ICMPv4_Seq = 0,
      ICMPv4_Payload = exampleEchoBytes\<rparr>"

text \<open>
  An ICMPv4 time-exceeded message from 192.0.2.1 to 10.0.0.5, and the
  parameter-problem message that embeds it (an error about an error).
\<close>

definition exampleNestedBytes :: "byte list" where
  "exampleNestedBytes =
     [0x45, 0x00, 0x00, 0x1c, 0x00, 0x01, 0x00, 0x00, 0x40, 0x01, 0xae, 0xda,
      0xc0, 0x00, 0x02, 0x01, 0x0a, 0x00, 0x00, 0x05,
      0x0b, 0x00, 0xf4, 0xff, 0x00, 0x00, 0x00, 0x00]"

definition exampleNestedHeader :: IPv4 where
  "exampleNestedHeader =
     \<lparr>IPv4_Version = 4, IPv4_IHL = 5, IPv4_Length = 28, IPv4_Id = 1, IPv4_Flags = 0,
      IPv4_TTL = 64, IPv4_Protocol = 1, IPv4_Checksum = 0xaeda,
      IPv4_SrcIP = [192, 0, 2, 1], IPv4_DstIP = [10, 0, 0, 5]\<rparr>"

definition exampleNested :: ICMPv4 where
  "exampleNested =
     \<lparr>ICMPv4_TypeCode = 0x0B00, ICMPv4_Id = 0, ICMPv4_Seq = 0, ICMPv4_Payload = []\<rparr>"

definition exampleParameterProblem :: ICMPv4 where
  "exampleParameterProblem =
     \<lparr>ICMPv4_TypeCode = 0x0C00, ICMPv4_Id = 0, ICMPv4_Seq = 0,
      ICMPv4_Payload = exampleNestedBytes\<rparr>"

text \<open>An echo request as the outer message: a query.\<close>

definition exampleEchoRequest :: ICMPv4 where
  "exampleEchoRequest =
     \<lparr>ICMPv4_TypeCode = 0x0800, ICMPv4_Id = 7, ICMPv4_Seq = 1, ICMPv4_Payload = []\<rparr>"

text \<open>A message of type 42, which is in neither case list.\<close>

definition exampleType42 :: ICMPv4 where
  "exampleType42 =
     \<lparr>ICMPv4_TypeCode = 0x2A00, ICMPv4_Id = 0, ICMPv4_Seq = 0, ICMPv4_Payload = []\<rparr>"

text \<open>
  An original TCP segment from 10.0.0.1:1234 to 93.184.216.34:80 with sequence number
  1000, cut after the IPv4 header and the first 8 bytes of the TCP header, and the
  destination-unreachable message that embeds it.
\<close>

definition exampleTCPBytes :: "byte list" where
  "exampleTCPBytes =
     [0x45, 0x00, 0x00, 0x28, 0x00, 0x01, 0x00, 0x00, 0x40, 0x06, 0x3a, 0xf4,
      0x0a, 0x00, 0x00, 0x01, 0x5d, 0xb8, 0xd8, 0x22,
      0x04, 0xd2, 0x00, 0x50, 0x00, 0x00, 0x03, 0xe8]"

definition exampleTCPHeader :: IPv4 where
  "exampleTCPHeader =
     \<lparr>IPv4_Version = 4, IPv4_IHL = 5, IPv4_Length = 40, IPv4_Id = 1, IPv4_Flags = 0,
      IPv4_TTL = 64, IPv4_Protocol = IPProtocolTCP, IPv4_Checksum = 0x3af4,
      IPv4_SrcIP = [10, 0, 0, 1], IPv4_DstIP = [93, 184, 216, 34]\<rparr>"

definition exampleTCPUnreachable :: ICMPv4 where
  "exampleTCPUnreachable =
     \<lparr>ICMPv4_TypeCode = 0x0303, ICMPv4_Id = 0, ICMPv4_Seq = 0,
      ICMPv4_Payload = exampleTCPBytes\<rparr>"

text \<open>
  The decoder for the examples: the model of the library's decoder. On a payload that
  the model does not cover, the layers are left unspecified.
\<close>

definition exampleNewPacket :: "byte list \<Rightarrow> Layer list" where
  "exampleNewPacket = NewPacket_Layers (\<lambda>data. undefined)"

text \<open>The indicators that \<open>parseICMPv4Layer\<close> builds for the example messages.\<close>

definition exampleUDPIndicator :: icmpv4Indicator where
  "exampleUDPIndicator =
     \<lparr>layer = exampleTimeExceeded, embIPv4Layer = Some exampleUDPHeader,
      embTransportLayer = Some (LayerUDP exampleUDP), embTransportLayerType = LayerTypeUDP\<rparr>"

definition exampleEchoIndicator :: icmpv4Indicator where
  "exampleEchoIndicator =
     \<lparr>layer = exampleUnreachable, embIPv4Layer = Some exampleEchoHeader,
      embTransportLayer = Some (LayerICMPv4 exampleEcho),
      embTransportLayerType = LayerTypeICMPv4\<rparr>"

definition exampleNestedIndicator :: icmpv4Indicator where
  "exampleNestedIndicator =
     \<lparr>layer = exampleParameterProblem, embIPv4Layer = Some exampleNestedHeader,
      embTransportLayer = Some (LayerICMPv4 exampleNested),
      embTransportLayerType = LayerTypeICMPv4\<rparr>"

definition exampleQueryIndicator :: icmpv4Indicator where
  "exampleQueryIndicator =
     \<lparr>layer = exampleEchoRequest, embIPv4Layer = None, embTransportLayer = None,
      embTransportLayerType = LayerTypeZero\<rparr>"

section \<open>Basic facts\<close>

lemmas ICMPv4Type_defs =
  ICMPv4TypeEchoReply_def ICMPv4TypeDestinationUnreachable_def ICMPv4TypeSourceQuench_def
  ICMPv4TypeRedirect_def ICMPv4TypeEchoRequest_def ICMPv4TypeRouterAdvertisement_def
  ICMPv4TypeRouterSolicitation_def ICMPv4TypeTimeExceeded_def
  ICMPv4TypeParameterProblem_def ICMPv4TypeTimestampRequest_def
  ICMPv4TypeTimestampReply_def ICMPv4TypeInfoRequest_def ICMPv4TypeInfoReply_def
  ICMPv4TypeAddressMaskRequest_def ICMPv4TypeAddressMaskReply_def

lemma queryTypes_not_errorTypes: "t \<in> set queryTypes \<Longrightarrow> t \<notin> set errorTypes"
  by (auto simp: queryTypes_def errorTypes_def ICMPv4Type_defs)

lemma set_queryTypes:
  "set queryTypes =
     {ICMPv4TypeEchoReply, ICMPv4TypeEchoRequest, ICMPv4TypeRouterAdvertisement,
      ICMPv4TypeRouterSolicitation, ICMPv4TypeTimestampRequest, ICMPv4TypeTimestampReply,
      ICMPv4TypeInfoRequest, ICMPv4TypeInfoReply, ICMPv4TypeAddressMaskRequest,
      ICMPv4TypeAddressMaskReply}"
  by (simp add: queryTypes_def)

lemma set_errorTypes:
  "set errorTypes =
     {ICMPv4TypeDestinationUnreachable, ICMPv4TypeSourceQuench, ICMPv4TypeRedirect,
      ICMPv4TypeTimeExceeded, ICMPv4TypeParameterProblem}"
  by (simp add: errorTypes_def)

lemma isQuery_query:
  "ICMPv4TypeCode_Type (ICMPv4_TypeCode (layer indicator)) \<in> set queryTypes
   \<Longrightarrow> isQuery indicator = Returned True"
  by (simp add: isQuery_def)

lemma isQuery_error:
  "ICMPv4TypeCode_Type (ICMPv4_TypeCode (layer indicator)) \<in> set errorTypes
   \<Longrightarrow> isQuery indicator = Returned False"
  using queryTypes_not_errorTypes by (auto simp: isQuery_def Let_def)

lemma isQuery_unsupported:
  "ICMPv4TypeCode_Type (ICMPv4_TypeCode (layer indicator)) \<notin> set queryTypes
   \<Longrightarrow> ICMPv4TypeCode_Type (ICMPv4_TypeCode (layer indicator)) \<notin> set errorTypes
   \<Longrightarrow> isQuery indicator =
        Panicked (PanicError (Wrap ''is query''
          (ErrICMPTypeNotSupport (ICMPv4TypeCode_Type (ICMPv4_TypeCode (layer indicator))))))"
  by (simp add: isQuery_def)

text \<open>
  What a successful parse of an error-type message looks like: the decoder gave at least
  two layers, the first an IPv4 header of version 4, and the indicator holds that header
  and the second layer under its own layer type.
\<close>

lemma parseICMPv4Layer_error_Returned:
  assumes "parseICMPv4Layer NewPacket m = Returned ind"
      and "ICMPv4TypeCode_Type (ICMPv4_TypeCode m) \<in> set errorTypes"
  shows "\<exists>ip t rest. NewPacket (ICMPv4_Payload m) = LayerIPv4 ip # t # rest \<and>
           IPv4_Version ip = 4 \<and>
           ind = \<lparr>layer = m, embIPv4Layer = Some ip, embTransportLayer = Some t,
                  embTransportLayerType = layerTypeOf t\<rparr>"
proof -
  from assms(2) have nq: "ICMPv4TypeCode_Type (ICMPv4_TypeCode m) \<notin> set queryTypes"
    using queryTypes_not_errorTypes by blast
  obtain ls where ls: "NewPacket (ICMPv4_Payload m) = ls" by simp
  show ?thesis
  proof (cases ls)
    case Nil
    with assms nq ls show ?thesis by (simp add: parseICMPv4Layer_def)
  next
    case outer: (Cons n ls')
    show ?thesis
    proof (cases ls')
      case Nil
      with assms nq ls outer show ?thesis by (simp add: parseICMPv4Layer_def)
    next
      case (Cons t rest)
      with assms nq ls outer show ?thesis
        by (cases n) (auto simp: parseICMPv4Layer_def Let_def split: if_splits)
    qed
  qed
qed

lemma layerTypeOf_TCP: "layerTypeOf t = LayerTypeTCP \<Longrightarrow> \<exists>tcp. t = LayerTCP tcp"
  by (cases t) simp_all

lemma layerTypeOf_UDP: "layerTypeOf t = LayerTypeUDP \<Longrightarrow> \<exists>udp. t = LayerUDP udp"
  by (cases t) simp_all

lemma layerTypeOf_ICMPv4: "layerTypeOf t = LayerTypeICMPv4 \<Longrightarrow> \<exists>icmp. t = LayerICMPv4 icmp"
  by (cases t) simp_all

text \<open>The example messages parse to the example indicators.\<close>

lemma parse_exampleTimeExceeded:
  "parseICMPv4Layer exampleNewPacket exampleTimeExceeded = Returned exampleUDPIndicator"
  by code_simp

lemma parse_exampleUnreachable:
  "parseICMPv4Layer exampleNewPacket exampleUnreachable = Returned exampleEchoIndicator"
  by code_simp

lemma parse_exampleParameterProblem:
  "parseICMPv4Layer exampleNewPacket exampleParameterProblem = Returned exampleNestedIndicator"
  by code_simp

lemma parse_exampleEchoRequest:
  "parseICMPv4Layer exampleNewPacket exampleEchoRequest = Returned exampleQueryIndicator"
  by code_simp

section \<open>The type switch\<close>

text \<open>
  Claim C4. The classification of an ICMPv4 message is a function of its type+code value
  alone. \<open>isQuery\<close> returns true exactly for the ten query types (echo reply and
  request, router advertisement and solicitation, timestamp request and reply,
  information request and reply, address-mask request and reply) and false exactly for
  the five error types (destination unreachable, source quench, redirect, time exceeded,
  parameter problem). For every other type there is no default answer: \<open>isQuery\<close>
  panics with the error "type not support", and \<open>parseICMPv4Layer\<close> returns that
  error. Two indicators with the same type+code value are classified alike, whatever
  their other fields hold. The type switch of \<open>parseICMPv4Layer\<close> draws the same
  lines: a message of a query type is accepted as it is, with no embedded layer; a
  message of an error type is accepted only with an embedded IPv4 header and an embedded
  layer after it; and the error "type not support" is returned exactly for the types in
  neither list.
\<close>

theorem isQuery_classifies_by_type:
  "(isQuery indicator = Returned True \<longleftrightarrow>
      ICMPv4TypeCode_Type (ICMPv4_TypeCode (layer indicator)) \<in>
        {ICMPv4TypeEchoReply, ICMPv4TypeEchoRequest, ICMPv4TypeRouterAdvertisement,
         ICMPv4TypeRouterSolicitation, ICMPv4TypeTimestampRequest, ICMPv4TypeTimestampReply,
         ICMPv4TypeInfoRequest, ICMPv4TypeInfoReply, ICMPv4TypeAddressMaskRequest,
         ICMPv4TypeAddressMaskReply})
   \<and> (isQuery indicator = Returned False \<longleftrightarrow>
      ICMPv4TypeCode_Type (ICMPv4_TypeCode (layer indicator)) \<in>
        {ICMPv4TypeDestinationUnreachable, ICMPv4TypeSourceQuench, ICMPv4TypeRedirect,
         ICMPv4TypeTimeExceeded, ICMPv4TypeParameterProblem})
   \<and> (ICMPv4TypeCode_Type (ICMPv4_TypeCode (layer indicator)) \<notin>
        {ICMPv4TypeEchoReply, ICMPv4TypeEchoRequest, ICMPv4TypeRouterAdvertisement,
         ICMPv4TypeRouterSolicitation, ICMPv4TypeTimestampRequest, ICMPv4TypeTimestampReply,
         ICMPv4TypeInfoRequest, ICMPv4TypeInfoReply, ICMPv4TypeAddressMaskRequest,
         ICMPv4TypeAddressMaskReply,
         ICMPv4TypeDestinationUnreachable, ICMPv4TypeSourceQuench, ICMPv4TypeRedirect,
         ICMPv4TypeTimeExceeded, ICMPv4TypeParameterProblem}
      \<longrightarrow> isQuery indicator =
            Panicked (PanicError (Wrap ''is query'' (ErrICMPTypeNotSupport
              (ICMPv4TypeCode_Type (ICMPv4_TypeCode (layer indicator))))))
        \<and> parseICMPv4Layer NewPacket (layer indicator) =
            Failed (Wrap ''parse icmp v4 layer'' (ErrICMPTypeNotSupport
              (ICMPv4TypeCode_Type (ICMPv4_TypeCode (layer indicator))))))
   \<and> (\<forall>other. ICMPv4_TypeCode (layer other) = ICMPv4_TypeCode (layer indicator)
        \<longrightarrow> isQuery other = isQuery indicator)
   \<and> (ICMPv4TypeCode_Type (ICMPv4_TypeCode (layer indicator)) \<in>
        {ICMPv4TypeEchoReply, ICMPv4TypeEchoRequest, ICMPv4TypeRouterAdvertisement,
         ICMPv4TypeRouterSolicitation, ICMPv4TypeTimestampRequest, ICMPv4TypeTimestampReply,
         ICMPv4TypeInfoRequest, ICMPv4TypeInfoReply, ICMPv4TypeAddressMaskRequest,
         ICMPv4TypeAddressMaskReply}
      \<longrightarrow> parseICMPv4Layer NewPacket (layer indicator) =
            Returned \<lparr>layer = layer indicator, embIPv4Layer = None,
                      embTransportLayer = None, embTransportLayerType = LayerTypeZero\<rparr>)
   \<and> (ICMPv4TypeCode_Type (ICMPv4_TypeCode (layer indicator)) \<in>
        {ICMPv4TypeDestinationUnreachable, ICMPv4TypeSourceQuench, ICMPv4TypeRedirect,
         ICMPv4TypeTimeExceeded, ICMPv4TypeParameterProblem}
      \<longrightarrow> (\<forall>parsed. parseICMPv4Layer NewPacket (layer indicator) = Returned parsed
            \<longrightarrow> layer parsed = layer indicator
              \<and> embIPv4Layer parsed \<noteq> None \<and> embTransportLayer parsed \<noteq> None))
   \<and> (parseICMPv4Layer NewPacket (layer indicator) =
        Failed (Wrap ''parse icmp v4 layer'' (ErrICMPTypeNotSupport
          (ICMPv4TypeCode_Type (ICMPv4_TypeCode (layer indicator)))))
      \<longleftrightarrow> ICMPv4TypeCode_Type (ICMPv4_TypeCode (layer indicator)) \<notin>
        {ICMPv4TypeEchoReply, ICMPv4TypeEchoRequest, ICMPv4TypeRouterAdvertisement,
         ICMPv4TypeRouterSolicitation, ICMPv4TypeTimestampRequest, ICMPv4TypeTimestampReply,
         ICMPv4TypeInfoRequest, ICMPv4TypeInfoReply, ICMPv4TypeAddressMaskRequest,
         ICMPv4TypeAddressMaskReply,
         ICMPv4TypeDestinationUnreachable, ICMPv4TypeSourceQuench, ICMPv4TypeRedirect,
         ICMPv4TypeTimeExceeded, ICMPv4TypeParameterProblem})"
proof -
  let ?t = "ICMPv4TypeCode_Type (ICMPv4_TypeCode (layer indicator))"
  have both: "set queryTypes \<union> set errorTypes =
        {ICMPv4TypeEchoReply, ICMPv4TypeEchoRequest, ICMPv4TypeRouterAdvertisement,
         ICMPv4TypeRouterSolicitation, ICMPv4TypeTimestampRequest, ICMPv4TypeTimestampReply,
         ICMPv4TypeInfoRequest, ICMPv4TypeInfoReply, ICMPv4TypeAddressMaskRequest,
         ICMPv4TypeAddressMaskReply,
         ICMPv4TypeDestinationUnreachable, ICMPv4TypeSourceQuench, ICMPv4TypeRedirect,
         ICMPv4TypeTimeExceeded, ICMPv4TypeParameterProblem}"
    unfolding set_queryTypes set_errorTypes by auto
  have 1: "isQuery indicator = Returned True \<longleftrightarrow> ?t \<in> set queryTypes"
    by (simp add: isQuery_def Let_def)
  have 2: "isQuery indicator = Returned False \<longleftrightarrow> ?t \<in> set errorTypes"
    using queryTypes_not_errorTypes [of ?t] by (auto simp: isQuery_def Let_def)
  have 3: "?t \<notin> set queryTypes \<union> set errorTypes \<longrightarrow>
        isQuery indicator = Panicked (PanicError (Wrap ''is query'' (ErrICMPTypeNotSupport ?t)))
      \<and> parseICMPv4Layer NewPacket (layer indicator) =
          Failed (Wrap ''parse icmp v4 layer'' (ErrICMPTypeNotSupport ?t))"
    by (simp add: isQuery_def parseICMPv4Layer_def)
  have 4: "\<forall>other. ICMPv4_TypeCode (layer other) = ICMPv4_TypeCode (layer indicator)
        \<longrightarrow> isQuery other = isQuery indicator"
    by (simp add: isQuery_def)
  have 5: "?t \<in> set queryTypes \<longrightarrow>
        parseICMPv4Layer NewPacket (layer indicator) =
          Returned \<lparr>layer = layer indicator, embIPv4Layer = None,
                    embTransportLayer = None, embTransportLayerType = LayerTypeZero\<rparr>"
    by (simp add: parseICMPv4Layer_def)
  have 6: "?t \<in> set errorTypes \<longrightarrow>
        (\<forall>parsed. parseICMPv4Layer NewPacket (layer indicator) = Returned parsed
           \<longrightarrow> layer parsed = layer indicator
             \<and> embIPv4Layer parsed \<noteq> None \<and> embTransportLayer parsed \<noteq> None)"
    using parseICMPv4Layer_error_Returned [of NewPacket "layer indicator"] by fastforce
  have 7: "parseICMPv4Layer NewPacket (layer indicator) =
          Failed (Wrap ''parse icmp v4 layer'' (ErrICMPTypeNotSupport ?t))
        \<longleftrightarrow> ?t \<notin> set queryTypes \<union> set errorTypes"
  proof
    assume f: "parseICMPv4Layer NewPacket (layer indicator) =
          Failed (Wrap ''parse icmp v4 layer'' (ErrICMPTypeNotSupport ?t))"
    show "?t \<notin> set queryTypes \<union> set errorTypes"
    proof
      assume "?t \<in> set queryTypes \<union> set errorTypes"
      then consider (q) "?t \<in> set queryTypes"
        | (e) "?t \<notin> set queryTypes" "?t \<in> set errorTypes"
        by blast
      then show False
      proof cases
        case q
        with f show False by (simp add: parseICMPv4Layer_def)
      next
        case e
        with f show False
          by (auto simp: parseICMPv4Layer_def Let_def split: if_splits Layer.splits)
      qed
    qed
  next
    assume "?t \<notin> set queryTypes \<union> set errorTypes"
    with 3 show "parseICMPv4Layer NewPacket (layer indicator) =
          Failed (Wrap ''parse icmp v4 layer'' (ErrICMPTypeNotSupport ?t))"
      by blast
  qed
  show ?thesis
    unfolding both [symmetric]
    unfolding set_queryTypes [symmetric] set_errorTypes [symmetric]
    using 1 2 3 4 5 6 7 by blast
qed

theorem isQuery_classifies_by_type_witness:
  "isQuery exampleQueryIndicator = Returned True
   \<and> isQuery exampleUDPIndicator = Returned False
   \<and> isQuery \<lparr>layer = exampleType42, embIPv4Layer = None, embTransportLayer = None,
        embTransportLayerType = LayerTypeZero\<rparr> =
       Panicked (PanicError (Wrap ''is query'' (ErrICMPTypeNotSupport 42)))
   \<and> parseICMPv4Layer exampleNewPacket exampleType42 =
       Failed (Wrap ''parse icmp v4 layer'' (ErrICMPTypeNotSupport 42))
   \<and> isQuery (exampleQueryIndicator\<lparr>embTransportLayerType := LayerTypeTCP\<rparr>) = Returned True
   \<and> parseICMPv4Layer exampleNewPacket exampleEchoRequest = Returned exampleQueryIndicator
   \<and> parseICMPv4Layer exampleNewPacket exampleTimeExceeded = Returned exampleUDPIndicator
   \<and> embIPv4Layer exampleUDPIndicator \<noteq> None
   \<and> embTransportLayer exampleUDPIndicator \<noteq> None
   \<and> parseICMPv4Layer exampleNewPacket exampleTimeExceeded \<noteq>
       Failed (Wrap ''parse icmp v4 layer'' (ErrICMPTypeNotSupport 11))"
proof -
  have q: "ICMPv4TypeCode_Type (ICMPv4_TypeCode (layer exampleQueryIndicator)) = ICMPv4TypeEchoRequest"
    by code_simp
  have e: "ICMPv4TypeCode_Type (ICMPv4_TypeCode (layer exampleUDPIndicator)) = ICMPv4TypeTimeExceeded"
    by code_simp
  have u: "ICMPv4TypeCode_Type (ICMPv4_TypeCode exampleType42) = 42"
    by code_simp
  have lq: "layer exampleQueryIndicator = exampleEchoRequest"
    by (simp add: exampleQueryIndicator_def)
  have le: "layer exampleUDPIndicator = exampleTimeExceeded"
    by (simp add: exampleUDPIndicator_def)
  note Q = isQuery_classifies_by_type [of exampleQueryIndicator exampleNewPacket]
  note E = isQuery_classifies_by_type [of exampleUDPIndicator exampleNewPacket]
  note U = isQuery_classifies_by_type [of "\<lparr>layer = exampleType42, embIPv4Layer = None,
        embTransportLayer = None, embTransportLayerType = LayerTypeZero\<rparr>" exampleNewPacket]
  have 1: "isQuery exampleQueryIndicator = Returned True"
    using Q [THEN conjunct1] q by simp
  have 2: "isQuery exampleUDPIndicator = Returned False"
    using E [THEN conjunct2, THEN conjunct1] e by simp
  have 3: "isQuery \<lparr>layer = exampleType42, embIPv4Layer = None, embTransportLayer = None,
        embTransportLayerType = LayerTypeZero\<rparr> =
       Panicked (PanicError (Wrap ''is query'' (ErrICMPTypeNotSupport 42)))
   \<and> parseICMPv4Layer exampleNewPacket exampleType42 =
       Failed (Wrap ''parse icmp v4 layer'' (ErrICMPTypeNotSupport 42))"
    using U [THEN conjunct2, THEN conjunct2, THEN conjunct1] u
    by (simp add: ICMPv4Type_defs)
  have 4: "isQuery (exampleQueryIndicator\<lparr>embTransportLayerType := LayerTypeTCP\<rparr>) = Returned True"
    using Q [THEN conjunct2, THEN conjunct2, THEN conjunct2, THEN conjunct1, rule_format,
        of "exampleQueryIndicator\<lparr>embTransportLayerType := LayerTypeTCP\<rparr>"] 1
    by simp
  have 5: "parseICMPv4Layer exampleNewPacket exampleEchoRequest = Returned exampleQueryIndicator"
    using Q [THEN conjunct2, THEN conjunct2, THEN conjunct2, THEN conjunct2, THEN conjunct1] q
    by (simp add: exampleQueryIndicator_def)
  have 6: "parseICMPv4Layer exampleNewPacket exampleTimeExceeded = Returned exampleUDPIndicator"
    by (rule parse_exampleTimeExceeded)
  have 7: "embIPv4Layer exampleUDPIndicator \<noteq> None
         \<and> embTransportLayer exampleUDPIndicator \<noteq> None"
    using E [THEN conjunct2, THEN conjunct2, THEN conjunct2, THEN conjunct2, THEN conjunct2,
        THEN conjunct1, rule_format, of exampleUDPIndicator] e le 6
    by simp
  have 8: "parseICMPv4Layer exampleNewPacket exampleTimeExceeded \<noteq>
       Failed (Wrap ''parse icmp v4 layer'' (ErrICMPTypeNotSupport 11))"
    using E [THEN conjunct2, THEN conjunct2, THEN conjunct2, THEN conjunct2, THEN conjunct2,
        THEN conjunct2] e le
    by (simp add: ICMPv4TypeTimeExceeded_def)
  from 1 2 3 4 5 6 7 8 show ?thesis by simp
qed

section \<open>Address checks of the layer factory\<close>

text \<open>
  Claim C5. \<open>createNetworkLayerIPv4\<close> fails with the error "invalid ipv4 address"
  whenever the source or the destination address has no 4-byte form (\<open>To4\<close> gives
  nil). \<open>createNetworkLayerIPv6\<close> never returns a layer: it fails with "invalid ipv6
  address" when either address has a 4-byte form, and with "ipv6 not support" otherwise.
\<close>

theorem createNetworkLayer_address_checks:
  "(To4 srcIP = None \<or> To4 dstIP = None \<longrightarrow>
      createNetworkLayerIPv4 srcIP dstIP ident ttl transportLayer =
        Failed (Wrap ''create network layer'' (ErrInvalidIPv4Address srcIP)))
   \<and> (To4 srcIP \<noteq> None \<or> To4 dstIP \<noteq> None \<longrightarrow>
      createNetworkLayerIPv6 srcIP dstIP transportLayer =
        Failed (Wrap ''create network layer'' (ErrInvalidIPv6Address srcIP)))
   \<and> (To4 srcIP = None \<and> To4 dstIP = None \<longrightarrow>
      createNetworkLayerIPv6 srcIP dstIP transportLayer =
        Failed (Wrap ''create network layer'' ErrIPv6NotSupport))
   \<and> is_Failed (createNetworkLayerIPv6 srcIP dstIP transportLayer)"
  by (simp add: createNetworkLayerIPv4_def createNetworkLayerIPv6_def)

theorem createNetworkLayer_address_checks_witness:
  "To4 [0x20, 0x01, 0x0d, 0xb8, 0, 0, 0, 0, 0, 0, 0, 0, 0, 0, 0, 1] = None
   \<and> To4 [10, 0, 0, 1] = Some [10, 0, 0, 1]
   \<and> createNetworkLayerIPv4 [10, 0, 0, 1]
        [0x20, 0x01, 0x0d, 0xb8, 0, 0, 0, 0, 0, 0, 0, 0, 0, 0, 0, 1] 1 64 (LayerUDP exampleUDP) =
        Failed (Wrap ''create network layer'' (ErrInvalidIPv4Address [10, 0, 0, 1]))
   \<and> createNetworkLayerIPv6 [10, 0, 0, 1]
        [0x20, 0x01, 0x0d, 0xb8, 0, 0, 0, 0, 0, 0, 0, 0, 0, 0, 0, 1] (LayerUDP exampleUDP) =
        Failed (Wrap ''create network layer'' (ErrInvalidIPv6Address [10, 0, 0, 1]))
   \<and> createNetworkLayerIPv6 [0x20, 0x01, 0x0d, 0xb8, 0, 0, 0, 0, 0, 0, 0, 0, 0, 0, 0, 1]
        [0x20, 0x01, 0x0d, 0xb8, 0, 0, 0, 0, 0, 0, 0, 0, 0, 0, 0, 1] (LayerUDP exampleUDP) =
        Failed (Wrap ''create network layer'' ErrIPv6NotSupport)"
proof -
  let ?v6 = "[0x20, 0x01, 0x0d, 0xb8, 0, 0, 0, 0, 0, 0, 0, 0, 0, 0, 0, 1] :: net_IP"
  let ?v4 = "[10, 0, 0, 1] :: net_IP"
  have a: "To4 ?v6 = None" by (simp add: To4_def isZeros_def)
  have b: "To4 ?v4 = Some ?v4" by (simp add: To4_def)
  show ?thesis
    using a b
      createNetworkLayer_address_checks [of ?v4 ?v6 1 64 "LayerUDP exampleUDP"]
      createNetworkLayer_address_checks [of ?v6 ?v6 1 64 "LayerUDP exampleUDP"]
    by simp
qed

section \<open>Parsing an ICMPv4 error message\<close>

text \<open>
  What \<open>parseICMPv4Layer\<close> does with the layers the decoder returns for the payload
  of an error-type message, for any decoder.
\<close>

lemma parseICMPv4Layer_decoded_layers:
  assumes "ICMPv4TypeCode_Type (ICMPv4_TypeCode m) \<in> set errorTypes"
  shows "(NewPacket (ICMPv4_Payload m) = [] \<longrightarrow>
            parseICMPv4Layer NewPacket m =
              Failed (Wrap ''parse icmp v4 layer'' ErrMissingNetworkLayer))
       \<and> (\<forall>n. NewPacket (ICMPv4_Payload m) = [n] \<longrightarrow>
            parseICMPv4Layer NewPacket m =
              Failed (Wrap ''parse icmp v4 layer'' ErrMissingTransportLayer))
       \<and> (\<forall>ip t rest. NewPacket (ICMPv4_Payload m) = LayerIPv4 ip # t # rest \<longrightarrow>
            (IPv4_Version ip \<noteq> 4 \<longrightarrow>
               parseICMPv4Layer NewPacket m =
                 Failed (Wrap ''parse icmp v4 layer''
                   (ErrIPVersionNotSupport (IPv4_Version ip))))
          \<and> (IPv4_Version ip = 4 \<longrightarrow>
               parseICMPv4Layer NewPacket m =
                 Returned \<lparr>layer = m, embIPv4Layer = Some ip, embTransportLayer = Some t,
                           embTransportLayerType = layerTypeOf t\<rparr>))"
proof -
  from assms have nq: "ICMPv4TypeCode_Type (ICMPv4_TypeCode m) \<notin> set queryTypes"
    using queryTypes_not_errorTypes by blast
  from assms nq show ?thesis
    by (auto simp: parseICMPv4Layer_def Let_def)
qed

text \<open>
  The layers of a payload of fewer than 20 bytes, and of a plain IPv4 header of protocol
  UDP or TCP followed by fewer than 8 or 20 bytes: the decoder still adds the IPv4 layer
  and the transport layer, with no field set where the header is cut, and a decode
  failure layer after them.
\<close>

lemma NewPacket_Layers_short:
  "length data < 20 \<Longrightarrow>
     NewPacket_Layers elsewhere data = [LayerIPv4 IPv4_zero, LayerDecodeFailure]"
  by (simp add: NewPacket_Layers_def)

lemma NewPacket_Layers_cut_UDP:
  "NewPacket_Layers elsewhere (take 24 exampleUDPBytes) =
     [LayerIPv4 exampleUDPHeader, LayerUDP UDP_zero, LayerDecodeFailure]"
  by code_simp

text \<open>
  Claim C6. The code looks for a missing network layer and a missing transport layer by
  counting the decoded layers, and the decoder adds a layer also for a header that is
  cut. For the time-exceeded message with an empty payload, where no IPv4 header is
  present, \<open>parseICMPv4Layer\<close> does not fail with "missing network layer": it reads
  the version of the unset IPv4 layer and fails with "ip version 0 not support". For
  the time-exceeded message whose payload is the IPv4 header of the UDP example and only
  4 of the 8 bytes of the UDP header, it does not fail with "missing transport layer":
  it returns an indicator whose embedded UDP layer has no field set, so that \<open>natSrc\<close>
  and \<open>natDst\<close> give port 0 instead of 53 and 5000.
\<close>

theorem parseICMPv4Layer_cut_payload:
  "ICMPv4TypeCode_Type (ICMPv4_TypeCode exampleTimeExceeded) = ICMPv4TypeTimeExceeded
   \<and> parseICMPv4Layer (NewPacket_Layers elsewhere)
        (exampleTimeExceeded\<lparr>ICMPv4_Payload := []\<rparr>) =
       Failed (Wrap ''parse icmp v4 layer'' (ErrIPVersionNotSupport 0))
   \<and> parseICMPv4Layer (NewPacket_Layers elsewhere)
        (exampleTimeExceeded\<lparr>ICMPv4_Payload := take 24 exampleUDPBytes\<rparr>) =
       Returned \<lparr>layer = exampleTimeExceeded\<lparr>ICMPv4_Payload := take 24 exampleUDPBytes\<rparr>,
                 embIPv4Layer = Some exampleUDPHeader,
                 embTransportLayer = Some (LayerUDP UDP_zero),
                 embTransportLayerType = LayerTypeUDP\<rparr>
   \<and> natSrc \<lparr>layer = exampleTimeExceeded\<lparr>ICMPv4_Payload := take 24 exampleUDPBytes\<rparr>,
              embIPv4Layer = Some exampleUDPHeader,
              embTransportLayer = Some (LayerUDP UDP_zero),
              embTransportLayerType = LayerTypeUDP\<rparr> = Returned (IPPort [8, 8, 8, 8] 0)
   \<and> natDst \<lparr>layer = exampleTimeExceeded\<lparr>ICMPv4_Payload := take 24 exampleUDPBytes\<rparr>,
              embIPv4Layer = Some exampleUDPHeader,
              embTransportLayer = Some (LayerUDP UDP_zero),
              embTransportLayerType = LayerTypeUDP\<rparr> = Returned (IPPort [10, 0, 0, 5] 0)"
proof -
  have t: "ICMPv4TypeCode_Type (ICMPv4_TypeCode exampleTimeExceeded) = ICMPv4TypeTimeExceeded"
    by code_simp
  then have e: "ICMPv4TypeCode_Type (ICMPv4_TypeCode exampleTimeExceeded) \<in> set errorTypes"
    by (simp add: set_errorTypes)
  have v0: "IPv4_Version IPv4_zero = 0"
    by (simp add: IPv4_zero_def)
  have v4: "IPv4_Version exampleUDPHeader = 4"
    by (simp add: exampleUDPHeader_def)
  have a: "parseICMPv4Layer (NewPacket_Layers elsewhere)
        (exampleTimeExceeded\<lparr>ICMPv4_Payload := []\<rparr>) =
       Failed (Wrap ''parse icmp v4 layer'' (ErrIPVersionNotSupport 0))"
    using parseICMPv4Layer_decoded_layers
      [of "exampleTimeExceeded\<lparr>ICMPv4_Payload := []\<rparr>" "NewPacket_Layers elsewhere"]
      e v0 NewPacket_Layers_short [of "[]" elsewhere]
    by simp
  have b: "parseICMPv4Layer (NewPacket_Layers elsewhere)
        (exampleTimeExceeded\<lparr>ICMPv4_Payload := take 24 exampleUDPBytes\<rparr>) =
       Returned \<lparr>layer = exampleTimeExceeded\<lparr>ICMPv4_Payload := take 24 exampleUDPBytes\<rparr>,
                 embIPv4Layer = Some exampleUDPHeader,
                 embTransportLayer = Some (LayerUDP UDP_zero),
                 embTransportLayerType = LayerTypeUDP\<rparr>"
    using parseICMPv4Layer_decoded_layers
      [of "exampleTimeExceeded\<lparr>ICMPv4_Payload := take 24 exampleUDPBytes\<rparr>"
          "NewPacket_Layers elsewhere"]
      e v4 NewPacket_Layers_cut_UDP [of elsewhere]
    by simp
  have c: "natSrc \<lparr>layer = exampleTimeExceeded\<lparr>ICMPv4_Payload := take 24 exampleUDPBytes\<rparr>,
              embIPv4Layer = Some exampleUDPHeader,
              embTransportLayer = Some (LayerUDP UDP_zero),
              embTransportLayerType = LayerTypeUDP\<rparr> = Returned (IPPort [8, 8, 8, 8] 0)"
    by code_simp
  have d: "natDst \<lparr>layer = exampleTimeExceeded\<lparr>ICMPv4_Payload := take 24 exampleUDPBytes\<rparr>,
              embIPv4Layer = Some exampleUDPHeader,
              embTransportLayer = Some (LayerUDP UDP_zero),
              embTransportLayerType = LayerTypeUDP\<rparr> = Returned (IPPort [10, 0, 0, 5] 0)"
    by code_simp
  from t a b c d show ?thesis by simp
qed

text \<open>
  Claim C7. The payload of the destination-unreachable example is a full IPv4 header
  followed by exactly the first 8 bytes of a TCP header, with source port 1234 and
  destination port 80. \<open>parseICMPv4Layer\<close> succeeds on it, but the embedded TCP layer
  has no field set, and \<open>embSrcPort\<close> and \<open>embDstPort\<close> return 0, not the ports
  carried in those 8 bytes. With only 4 bytes after the header \<open>parseICMPv4Layer\<close>
  succeeds as well; it does not fail with "missing transport layer".
\<close>

theorem parseICMPv4Layer_cut_TCP_header:
  "ICMPv4TypeCode_Type (ICMPv4_TypeCode exampleTCPUnreachable) =
     ICMPv4TypeDestinationUnreachable
   \<and> length exampleTCPBytes = 20 + 8
   \<and> be16 (exampleTCPBytes ! 20) (exampleTCPBytes ! 21) = 1234
   \<and> be16 (exampleTCPBytes ! 22) (exampleTCPBytes ! 23) = 80
   \<and> parseICMPv4Layer (NewPacket_Layers elsewhere) exampleTCPUnreachable =
       Returned \<lparr>layer = exampleTCPUnreachable, embIPv4Layer = Some exampleTCPHeader,
                 embTransportLayer = Some (LayerTCP TCP_zero),
                 embTransportLayerType = LayerTypeTCP\<rparr>
   \<and> embSrcPort \<lparr>layer = exampleTCPUnreachable, embIPv4Layer = Some exampleTCPHeader,
                  embTransportLayer = Some (LayerTCP TCP_zero),
                  embTransportLayerType = LayerTypeTCP\<rparr> = Returned 0
   \<and> embDstPort \<lparr>layer = exampleTCPUnreachable, embIPv4Layer = Some exampleTCPHeader,
                  embTransportLayer = Some (LayerTCP TCP_zero),
                  embTransportLayerType = LayerTypeTCP\<rparr> = Returned 0
   \<and> parseICMPv4Layer (NewPacket_Layers elsewhere)
        (exampleTCPUnreachable\<lparr>ICMPv4_Payload := take 24 exampleTCPBytes\<rparr>) =
       Returned \<lparr>layer = exampleTCPUnreachable\<lparr>ICMPv4_Payload := take 24 exampleTCPBytes\<rparr>,
                 embIPv4Layer = Some exampleTCPHeader,
                 embTransportLayer = Some (LayerTCP TCP_zero),
                 embTransportLayerType = LayerTypeTCP\<rparr>"
proof -
  have t: "ICMPv4TypeCode_Type (ICMPv4_TypeCode exampleTCPUnreachable) =
             ICMPv4TypeDestinationUnreachable"
    by code_simp
  then have e: "ICMPv4TypeCode_Type (ICMPv4_TypeCode exampleTCPUnreachable) \<in> set errorTypes"
    by (simp add: set_errorTypes)
  have bytes: "length exampleTCPBytes = 20 + 8
     \<and> be16 (exampleTCPBytes ! 20) (exampleTCPBytes ! 21) = 1234
     \<and> be16 (exampleTCPBytes ! 22) (exampleTCPBytes ! 23) = 80"
    by code_simp
  have d8: "NewPacket_Layers elsewhere exampleTCPBytes =
              [LayerIPv4 exampleTCPHeader, LayerTCP TCP_zero, LayerDecodeFailure]"
    by code_simp
  have d4: "NewPacket_Layers elsewhere (take 24 exampleTCPBytes) =
              [LayerIPv4 exampleTCPHeader, LayerTCP TCP_zero, LayerDecodeFailure]"
    by code_simp
  have v4: "IPv4_Version exampleTCPHeader = 4"
    by (simp add: exampleTCPHeader_def)
  have p8: "parseICMPv4Layer (NewPacket_Layers elsewhere) exampleTCPUnreachable =
       Returned \<lparr>layer = exampleTCPUnreachable, embIPv4Layer = Some exampleTCPHeader,
                 embTransportLayer = Some (LayerTCP TCP_zero),
                 embTransportLayerType = LayerTypeTCP\<rparr>"
    using parseICMPv4Layer_decoded_layers [of exampleTCPUnreachable "NewPacket_Layers elsewhere"]
      e v4 d8
    by (simp add: exampleTCPUnreachable_def)
  have p4: "parseICMPv4Layer (NewPacket_Layers elsewhere)
        (exampleTCPUnreachable\<lparr>ICMPv4_Payload := take 24 exampleTCPBytes\<rparr>) =
       Returned \<lparr>layer = exampleTCPUnreachable\<lparr>ICMPv4_Payload := take 24 exampleTCPBytes\<rparr>,
                 embIPv4Layer = Some exampleTCPHeader,
                 embTransportLayer = Some (LayerTCP TCP_zero),
                 embTransportLayerType = LayerTypeTCP\<rparr>"
    using parseICMPv4Layer_decoded_layers
      [of "exampleTCPUnreachable\<lparr>ICMPv4_Payload := take 24 exampleTCPBytes\<rparr>"
          "NewPacket_Layers elsewhere"]
      e v4 d4
    by simp
  have ports: "embSrcPort \<lparr>layer = exampleTCPUnreachable, embIPv4Layer = Some exampleTCPHeader,
                  embTransportLayer = Some (LayerTCP TCP_zero),
                  embTransportLayerType = LayerTypeTCP\<rparr> = Returned 0
   \<and> embDstPort \<lparr>layer = exampleTCPUnreachable, embIPv4Layer = Some exampleTCPHeader,
                  embTransportLayer = Some (LayerTCP TCP_zero),
                  embTransportLayerType = LayerTypeTCP\<rparr> = Returned 0"
    by (simp add: embSrcPort_def embDstPort_def embTCPLayer_def deref_def TCP_zero_def)
  from t bytes p8 p4 ports show ?thesis by simp
qed

section \<open>NAT endpoints of an ICMPv4 error message\<close>

lemma andThen_Returned:
  "andThen x f = Returned y \<longleftrightarrow> (\<exists>v. x = Returned v \<and> f v = Returned y)"
  by (cases x) simp_all

lemma isEmbQuery_wrong_type:
  "embTransportLayerType indicator \<noteq> LayerTypeICMPv4
   \<Longrightarrow> isEmbQuery indicator = Panicked NilPointerDereference"
  by (simp add: isEmbQuery_def embICMPv4Layer_def deref_def)

text \<open>
  Claim C1. For an indicator parsed from an ICMPv4 error message whose embedded
  transport layer is TCP or UDP, \<open>natSrc\<close> returns the address-and-port endpoint made
  of the embedded destination address and destination port, and \<open>natDst\<close> the one
  made of the embedded source address and source port. The addresses are those of the
  decoded IPv4 header and the ports those of the decoded TCP or UDP layer, which is also
  what the accessors return. The witness is the time-exceeded message that embeds a UDP
  datagram from 10.0.0.5:5000 to 8.8.8.8:53: \<open>natSrc\<close> is 8.8.8.8:53 and
  \<open>natDst\<close> is 10.0.0.5:5000.
\<close>

theorem natSrc_natDst_TCP_UDP:
  assumes "parseICMPv4Layer NewPacket m = Returned indicator"
      and "ICMPv4TypeCode_Type (ICMPv4_TypeCode m) \<in> set errorTypes"
      and "embTransportLayerType indicator = LayerTypeTCP
           \<or> embTransportLayerType indicator = LayerTypeUDP"
  shows "\<exists>ip t rest srcPort dstPort.
           NewPacket (ICMPv4_Payload m) = LayerIPv4 ip # t # rest
         \<and> ((\<exists>tcp. t = LayerTCP tcp \<and> srcPort = TCP_SrcPort tcp \<and> dstPort = TCP_DstPort tcp)
            \<or> (\<exists>udp. t = LayerUDP udp \<and> srcPort = UDP_SrcPort udp \<and> dstPort = UDP_DstPort udp))
         \<and> embSrcIP indicator = Returned (IPv4_SrcIP ip)
         \<and> embDstIP indicator = Returned (IPv4_DstIP ip)
         \<and> embSrcPort indicator = Returned srcPort
         \<and> embDstPort indicator = Returned dstPort
         \<and> natSrc indicator = Returned (IPPort (IPv4_DstIP ip) dstPort)
         \<and> natDst indicator = Returned (IPPort (IPv4_SrcIP ip) srcPort)"
proof -
  from parseICMPv4Layer_error_Returned [OF assms(1,2)]
  obtain ip t rest where
    dec: "NewPacket (ICMPv4_Payload m) = LayerIPv4 ip # t # rest" and
    ind: "indicator = \<lparr>layer = m, embIPv4Layer = Some ip, embTransportLayer = Some t,
                        embTransportLayerType = layerTypeOf t\<rparr>"
    by blast
  from assms(2) ind have q: "isQuery indicator = Returned False"
    by (simp add: isQuery_error)
  from assms(3) ind have "layerTypeOf t = LayerTypeTCP \<or> layerTypeOf t = LayerTypeUDP"
    by simp
  then show ?thesis
  proof
    assume "layerTypeOf t = LayerTypeTCP"
    then obtain tcp where t: "t = LayerTCP tcp"
      using layerTypeOf_TCP by blast
    have acc: "embSrcIP indicator = Returned (IPv4_SrcIP ip)"
      "embDstIP indicator = Returned (IPv4_DstIP ip)"
      "embSrcPort indicator = Returned (TCP_SrcPort tcp)"
      "embDstPort indicator = Returned (TCP_DstPort tcp)"
      using ind t
      by (simp_all add: embSrcIP_def embDstIP_def embSrcPort_def embDstPort_def
          embTCPLayer_def deref_def)
    have nat: "natSrc indicator = Returned (IPPort (IPv4_DstIP ip) (TCP_DstPort tcp))"
      "natDst indicator = Returned (IPPort (IPv4_SrcIP ip) (TCP_SrcPort tcp))"
      using q acc ind t by (simp_all add: natSrc_def natDst_def)
    from dec t acc nat show ?thesis by blast
  next
    assume "layerTypeOf t = LayerTypeUDP"
    then obtain udp where t: "t = LayerUDP udp"
      using layerTypeOf_UDP by blast
    have acc: "embSrcIP indicator = Returned (IPv4_SrcIP ip)"
      "embDstIP indicator = Returned (IPv4_DstIP ip)"
      "embSrcPort indicator = Returned (UDP_SrcPort udp)"
      "embDstPort indicator = Returned (UDP_DstPort udp)"
      using ind t
      by (simp_all add: embSrcIP_def embDstIP_def embSrcPort_def embDstPort_def
          embUDPLayer_def deref_def)
    have nat: "natSrc indicator = Returned (IPPort (IPv4_DstIP ip) (UDP_DstPort udp))"
      "natDst indicator = Returned (IPPort (IPv4_SrcIP ip) (UDP_SrcPort udp))"
      using q acc ind t by (simp_all add: natSrc_def natDst_def)
    from dec t acc nat show ?thesis by blast
  qed
qed

theorem natSrc_natDst_TCP_UDP_witness:
  "parseICMPv4Layer exampleNewPacket exampleTimeExceeded = Returned exampleUDPIndicator
   \<and> ICMPv4TypeCode_Type (ICMPv4_TypeCode exampleTimeExceeded) = ICMPv4TypeTimeExceeded
   \<and> embTransportLayerType exampleUDPIndicator = LayerTypeUDP
   \<and> natSrc exampleUDPIndicator = Returned (IPPort [8, 8, 8, 8] 53)
   \<and> natDst exampleUDPIndicator = Returned (IPPort [10, 0, 0, 5] 5000)"
proof -
  have p: "parseICMPv4Layer exampleNewPacket exampleTimeExceeded = Returned exampleUDPIndicator"
    by (rule parse_exampleTimeExceeded)
  have e: "ICMPv4TypeCode_Type (ICMPv4_TypeCode exampleTimeExceeded) \<in> set errorTypes"
    by code_simp
  have e': "ICMPv4TypeCode_Type (ICMPv4_TypeCode exampleTimeExceeded) = ICMPv4TypeTimeExceeded"
    by code_simp
  have u: "embTransportLayerType exampleUDPIndicator = LayerTypeTCP
           \<or> embTransportLayerType exampleUDPIndicator = LayerTypeUDP"
    by (simp add: exampleUDPIndicator_def)
  have d: "exampleNewPacket (ICMPv4_Payload exampleTimeExceeded) =
             [LayerIPv4 exampleUDPHeader, LayerUDP exampleUDP]"
    by code_simp
  from natSrc_natDst_TCP_UDP [OF p e u] d
  have "natSrc exampleUDPIndicator =
          Returned (IPPort (IPv4_DstIP exampleUDPHeader) (UDP_DstPort exampleUDP))
      \<and> natDst exampleUDPIndicator =
          Returned (IPPort (IPv4_SrcIP exampleUDPHeader) (UDP_SrcPort exampleUDP))"
    by auto
  then show ?thesis
    using p e' by (simp add: exampleUDPHeader_def exampleUDP_def exampleUDPIndicator_def)
qed

text \<open>
  Claim C2. For an indicator parsed from an ICMPv4 error message whose embedded
  transport layer is itself ICMPv4: when the embedded type is a query type, \<open>natSrc\<close>
  returns the address-and-identifier endpoint made of the embedded destination address
  and the embedded identifier; when the embedded type is an error type it returns the
  address-only endpoint of the embedded destination address. \<open>natDst\<close> is the same
  with the embedded source address.
\<close>

theorem natSrc_natDst_ICMPv4:
  assumes "parseICMPv4Layer NewPacket m = Returned indicator"
      and "ICMPv4TypeCode_Type (ICMPv4_TypeCode m) \<in> set errorTypes"
      and "embTransportLayerType indicator = LayerTypeICMPv4"
  shows "\<exists>ip icmp rest.
           NewPacket (ICMPv4_Payload m) = LayerIPv4 ip # LayerICMPv4 icmp # rest
         \<and> embSrcIP indicator = Returned (IPv4_SrcIP ip)
         \<and> embDstIP indicator = Returned (IPv4_DstIP ip)
         \<and> (ICMPv4TypeCode_Type (ICMPv4_TypeCode icmp) \<in> set queryTypes \<longrightarrow>
              isEmbQuery indicator = Returned True
            \<and> embId indicator = Returned (ICMPv4_Id icmp)
            \<and> natSrc indicator = Returned (IPId (IPv4_DstIP ip) (ICMPv4_Id icmp))
            \<and> natDst indicator = Returned (IPId (IPv4_SrcIP ip) (ICMPv4_Id icmp)))
         \<and> (ICMPv4TypeCode_Type (ICMPv4_TypeCode icmp) \<in> set errorTypes \<longrightarrow>
              isEmbQuery indicator = Returned False
            \<and> natSrc indicator = Returned (IP (IPv4_DstIP ip))
            \<and> natDst indicator = Returned (IP (IPv4_SrcIP ip)))"
proof -
  from parseICMPv4Layer_error_Returned [OF assms(1,2)]
  obtain ip t rest where
    dec: "NewPacket (ICMPv4_Payload m) = LayerIPv4 ip # t # rest" and
    ind: "indicator = \<lparr>layer = m, embIPv4Layer = Some ip, embTransportLayer = Some t,
                        embTransportLayerType = layerTypeOf t\<rparr>"
    by blast
  from assms(3) ind obtain icmp where t: "t = LayerICMPv4 icmp"
    using layerTypeOf_ICMPv4 by auto
  let ?t = "ICMPv4TypeCode_Type (ICMPv4_TypeCode icmp)"
  from assms(2) ind have q: "isQuery indicator = Returned False"
    by (simp add: isQuery_error)
  have acc: "embSrcIP indicator = Returned (IPv4_SrcIP ip)"
    "embDstIP indicator = Returned (IPv4_DstIP ip)"
    "embId indicator = Returned (ICMPv4_Id icmp)"
    using ind t
    by (simp_all add: embSrcIP_def embDstIP_def embId_def embICMPv4Layer_def deref_def)
  have ty: "embTransportLayerType indicator = LayerTypeICMPv4"
    by (rule assms(3))
  have isq: "?t \<in> set queryTypes \<Longrightarrow> isEmbQuery indicator = Returned True"
    using ind t by (simp add: isEmbQuery_def embICMPv4Layer_def deref_def)
  have ise: "?t \<in> set errorTypes \<Longrightarrow> isEmbQuery indicator = Returned False"
    using ind t queryTypes_not_errorTypes [of ?t]
    by (auto simp: isEmbQuery_def embICMPv4Layer_def deref_def Let_def)
  have query: "?t \<in> set queryTypes \<Longrightarrow>
      natSrc indicator = Returned (IPId (IPv4_DstIP ip) (ICMPv4_Id icmp))
    \<and> natDst indicator = Returned (IPId (IPv4_SrcIP ip) (ICMPv4_Id icmp))"
    using q acc ty isq by (simp add: natSrc_def natDst_def)
  have err: "?t \<in> set errorTypes \<Longrightarrow>
      natSrc indicator = Returned (IP (IPv4_DstIP ip))
    \<and> natDst indicator = Returned (IP (IPv4_SrcIP ip))"
    using q acc ty ise by (simp add: natSrc_def natDst_def)
  from dec t acc isq ise query err show ?thesis by blast
qed

theorem natSrc_natDst_ICMPv4_witness:
  "parseICMPv4Layer exampleNewPacket exampleUnreachable = Returned exampleEchoIndicator
   \<and> ICMPv4TypeCode_Type (ICMPv4_TypeCode exampleEcho) = ICMPv4TypeEchoRequest
   \<and> natSrc exampleEchoIndicator = Returned (IPId [8, 8, 8, 8] 0x1234)
   \<and> natDst exampleEchoIndicator = Returned (IPId [10, 0, 0, 5] 0x1234)
   \<and> parseICMPv4Layer exampleNewPacket exampleParameterProblem = Returned exampleNestedIndicator
   \<and> ICMPv4TypeCode_Type (ICMPv4_TypeCode exampleNested) = ICMPv4TypeTimeExceeded
   \<and> natSrc exampleNestedIndicator = Returned (IP [10, 0, 0, 5])
   \<and> natDst exampleNestedIndicator = Returned (IP [192, 0, 2, 1])"
proof -
  have e1: "ICMPv4TypeCode_Type (ICMPv4_TypeCode exampleUnreachable) \<in> set errorTypes"
    by code_simp
  have e2: "ICMPv4TypeCode_Type (ICMPv4_TypeCode exampleParameterProblem) \<in> set errorTypes"
    by code_simp
  have t1: "embTransportLayerType exampleEchoIndicator = LayerTypeICMPv4"
    by (simp add: exampleEchoIndicator_def)
  have t2: "embTransportLayerType exampleNestedIndicator = LayerTypeICMPv4"
    by (simp add: exampleNestedIndicator_def)
  have d1: "exampleNewPacket (ICMPv4_Payload exampleUnreachable) =
             [LayerIPv4 exampleEchoHeader, LayerICMPv4 exampleEcho]"
    by code_simp
  have d2: "exampleNewPacket (ICMPv4_Payload exampleParameterProblem) =
             [LayerIPv4 exampleNestedHeader, LayerICMPv4 exampleNested]"
    by code_simp
  have q1: "ICMPv4TypeCode_Type (ICMPv4_TypeCode exampleEcho) \<in> set queryTypes"
    by code_simp
  have q1': "ICMPv4TypeCode_Type (ICMPv4_TypeCode exampleEcho) = ICMPv4TypeEchoRequest"
    by code_simp
  have q2: "ICMPv4TypeCode_Type (ICMPv4_TypeCode exampleNested) \<in> set errorTypes"
    by code_simp
  have q2': "ICMPv4TypeCode_Type (ICMPv4_TypeCode exampleNested) = ICMPv4TypeTimeExceeded"
    by code_simp
  from natSrc_natDst_ICMPv4 [OF parse_exampleUnreachable e1 t1] d1 q1
  have r1: "natSrc exampleEchoIndicator =
              Returned (IPId (IPv4_DstIP exampleEchoHeader) (ICMPv4_Id exampleEcho))
          \<and> natDst exampleEchoIndicator =
              Returned (IPId (IPv4_SrcIP exampleEchoHeader) (ICMPv4_Id exampleEcho))"
    by auto
  from natSrc_natDst_ICMPv4 [OF parse_exampleParameterProblem e2 t2] d2 q2
  have r2: "natSrc exampleNestedIndicator = Returned (IP (IPv4_DstIP exampleNestedHeader))
          \<and> natDst exampleNestedIndicator = Returned (IP (IPv4_SrcIP exampleNestedHeader))"
    by auto
  from r1 r2 q1' q2' parse_exampleUnreachable parse_exampleParameterProblem
  show ?thesis
    by (simp add: exampleEchoHeader_def exampleEcho_def exampleNestedHeader_def)
qed

text \<open>
  Claim C3, as amended. For every indicator whose outer message is of a query type,
  \<open>natSrc\<close> and \<open>natDst\<close> return no endpoint: each panics, and the panic carries
  the error "icmpv4 query not support". The failure is a Go panic, not an error returned
  to the caller.
\<close>

theorem natSrc_natDst_query_panics:
  assumes "ICMPv4TypeCode_Type (ICMPv4_TypeCode (layer indicator)) \<in> set queryTypes"
  shows "natSrc indicator = Panicked (PanicError (Wrap ''src'' ErrICMPv4QueryNotSupport))
       \<and> natDst indicator = Panicked (PanicError (Wrap ''dst'' ErrICMPv4QueryNotSupport))"
  using isQuery_query [OF assms] by (simp add: natSrc_def natDst_def)

theorem natSrc_natDst_query_panics_witness:
  "ICMPv4TypeCode_Type (ICMPv4_TypeCode (layer exampleQueryIndicator)) = ICMPv4TypeEchoRequest
   \<and> natSrc exampleQueryIndicator =
       Panicked (PanicError (Wrap ''src'' ErrICMPv4QueryNotSupport))
   \<and> natDst exampleQueryIndicator =
       Panicked (PanicError (Wrap ''dst'' ErrICMPv4QueryNotSupport))"
proof -
  have q: "ICMPv4TypeCode_Type (ICMPv4_TypeCode (layer exampleQueryIndicator)) \<in> set queryTypes"
    by code_simp
  have q': "ICMPv4TypeCode_Type (ICMPv4_TypeCode (layer exampleQueryIndicator)) =
              ICMPv4TypeEchoRequest"
    by code_simp
  from natSrc_natDst_query_panics [OF q] q' show ?thesis by simp
qed

text \<open>
  The claim as stated fails on the indicator parsed from an echo request: neither
  function ends with an error returned to the caller; both panic.
\<close>

theorem natSrc_natDst_query_counterexample:
  "parseICMPv4Layer exampleNewPacket exampleEchoRequest = Returned exampleQueryIndicator
   \<and> ICMPv4TypeCode_Type (ICMPv4_TypeCode (layer exampleQueryIndicator)) \<in> set queryTypes
   \<and> \<not> is_Failed (natSrc exampleQueryIndicator)
   \<and> \<not> is_Failed (natDst exampleQueryIndicator)
   \<and> is_Panicked (natSrc exampleQueryIndicator)
   \<and> is_Panicked (natDst exampleQueryIndicator)"
proof -
  have p: "parseICMPv4Layer exampleNewPacket exampleEchoRequest = Returned exampleQueryIndicator"
    by (rule parse_exampleEchoRequest)
  have q: "ICMPv4TypeCode_Type (ICMPv4_TypeCode (layer exampleQueryIndicator)) \<in> set queryTypes"
    by code_simp
  have s: "natSrc exampleQueryIndicator =
             Panicked (PanicError (Wrap ''src'' ErrICMPv4QueryNotSupport))"
    using isQuery_query [OF q] by (simp add: natSrc_def)
  have d: "natDst exampleQueryIndicator =
             Panicked (PanicError (Wrap ''dst'' ErrICMPv4QueryNotSupport))"
    using isQuery_query [OF q] by (simp add: natDst_def)
  from p q s d show ?thesis by simp
qed

section \<open>Accessors of the embedded layers\<close>

text \<open>
  Claim C9, as amended. On an indicator whose embedded transport discriminant is not
  the one an accessor needs, the accessor returns no value, neither zero nor any
  other: it panics. \<open>embSrcPort\<close> and \<open>embDstPort\<close> (discriminant neither TCP nor
  UDP) and \<open>embId\<close> (discriminant not ICMPv4) panic with the error "type not support"
  that names the discriminant; \<open>isEmbQuery\<close> (discriminant not ICMPv4) panics as
  well. None of them returns an error to the caller.
\<close>

theorem embedded_accessors_wrong_type_panic:
  "(embTransportLayerType indicator \<noteq> LayerTypeTCP
      \<and> embTransportLayerType indicator \<noteq> LayerTypeUDP \<longrightarrow>
        embSrcPort indicator =
          Panicked (PanicError (Wrap ''emb src port''
            (ErrLayerTypeNotSupport (embTransportLayerType indicator))))
      \<and> embDstPort indicator =
          Panicked (PanicError (Wrap ''emb dst port''
            (ErrLayerTypeNotSupport (embTransportLayerType indicator)))))
   \<and> (embTransportLayerType indicator \<noteq> LayerTypeICMPv4 \<longrightarrow>
        embId indicator =
          Panicked (PanicError (Wrap ''emb id''
            (ErrLayerTypeNotSupport (embTransportLayerType indicator))))
      \<and> is_Panicked (isEmbQuery indicator))"
  by (simp add: embSrcPort_def embDstPort_def embId_def isEmbQuery_wrong_type)

theorem embedded_accessors_wrong_type_panic_witness:
  "embTransportLayerType exampleEchoIndicator = LayerTypeICMPv4
   \<and> embSrcPort exampleEchoIndicator =
       Panicked (PanicError (Wrap ''emb src port'' (ErrLayerTypeNotSupport LayerTypeICMPv4)))
   \<and> embDstPort exampleEchoIndicator =
       Panicked (PanicError (Wrap ''emb dst port'' (ErrLayerTypeNotSupport LayerTypeICMPv4)))
   \<and> embTransportLayerType exampleUDPIndicator = LayerTypeUDP
   \<and> embId exampleUDPIndicator =
       Panicked (PanicError (Wrap ''emb id'' (ErrLayerTypeNotSupport LayerTypeUDP)))
   \<and> is_Panicked (isEmbQuery exampleUDPIndicator)"
proof -
  have a: "embTransportLayerType exampleEchoIndicator = LayerTypeICMPv4"
    by (simp add: exampleEchoIndicator_def)
  have b: "embTransportLayerType exampleUDPIndicator = LayerTypeUDP"
    by (simp add: exampleUDPIndicator_def)
  from a b
    embedded_accessors_wrong_type_panic [of exampleEchoIndicator]
    embedded_accessors_wrong_type_panic [of exampleUDPIndicator]
  show ?thesis by simp
qed

text \<open>
  The claim as stated fails on the example indicators: with an embedded UDP datagram,
  \<open>embId\<close> and \<open>isEmbQuery\<close> do not end with an error returned to the caller, and
  with an embedded echo request neither do \<open>embSrcPort\<close> and \<open>embDstPort\<close>.
\<close>

theorem embedded_accessors_counterexample:
  "embTransportLayerType exampleUDPIndicator \<noteq> LayerTypeICMPv4
   \<and> \<not> is_Failed (embId exampleUDPIndicator)
   \<and> \<not> is_Failed (isEmbQuery exampleUDPIndicator)
   \<and> embTransportLayerType exampleEchoIndicator \<noteq> LayerTypeTCP
   \<and> embTransportLayerType exampleEchoIndicator \<noteq> LayerTypeUDP
   \<and> \<not> is_Failed (embSrcPort exampleEchoIndicator)
   \<and> \<not> is_Failed (embDstPort exampleEchoIndicator)"
  by (simp add: exampleUDPIndicator_def exampleEchoIndicator_def embId_def isEmbQuery_def
      embICMPv4Layer_def deref_def embSrcPort_def embDstPort_def)

section \<open>The two endpoints of one indicator\<close>

text \<open>
  Claim C10. Whenever \<open>natSrc\<close> and \<open>natDst\<close> both return an endpoint for an
  indicator, the two endpoints have the same shape; the address of the \<open>natSrc\<close>
  endpoint is the embedded destination address and the address of the \<open>natDst\<close>
  endpoint is the embedded source address; and two address-and-identifier endpoints
  carry the same identifier, the embedded one.
\<close>

theorem natSrc_natDst_same_shape:
  assumes "natSrc indicator = Returned s"
      and "natDst indicator = Returned d"
  shows "\<exists>srcIP dstIP.
           embSrcIP indicator = Returned srcIP
         \<and> embDstIP indicator = Returned dstIP
         \<and> ((\<exists>srcPort dstPort. s = IPPort dstIP dstPort \<and> d = IPPort srcIP srcPort)
            \<or> (\<exists>i. s = IPId dstIP i \<and> d = IPId srcIP i \<and> embId indicator = Returned i)
            \<or> (s = IP dstIP \<and> d = IP srcIP))"
proof -
  from assms(1) have q: "isQuery indicator = Returned False"
    by (auto simp: natSrc_def andThen_Returned split: if_splits)
  show ?thesis
  proof (cases "embTransportLayerType indicator = LayerTypeTCP
                \<or> embTransportLayerType indicator = LayerTypeUDP")
    case True
    with assms q show ?thesis
      by (auto simp: natSrc_def natDst_def andThen_Returned)
  next
    case False
    note not_port = False
    show ?thesis
    proof (cases "embTransportLayerType indicator = LayerTypeICMPv4")
      case True
      with assms q not_port show ?thesis
        by (auto simp: natSrc_def natDst_def andThen_Returned split: if_splits)
    next
      case False
      with assms q not_port show ?thesis
        by (simp add: natSrc_def)
    qed
  qed
qed

theorem natSrc_natDst_same_shape_witness:
  "natSrc exampleEchoIndicator = Returned (IPId [8, 8, 8, 8] 0x1234)
   \<and> natDst exampleEchoIndicator = Returned (IPId [10, 0, 0, 5] 0x1234)
   \<and> embSrcIP exampleEchoIndicator = Returned [10, 0, 0, 5]
   \<and> embDstIP exampleEchoIndicator = Returned [8, 8, 8, 8]
   \<and> embId exampleEchoIndicator = Returned 0x1234"
proof -
  have s: "natSrc exampleEchoIndicator = Returned (IPId [8, 8, 8, 8] 0x1234)"
    by code_simp
  have d: "natDst exampleEchoIndicator = Returned (IPId [10, 0, 0, 5] 0x1234)"
    by code_simp
  from natSrc_natDst_same_shape [OF s d] s d show ?thesis by auto
qed

end
